theory Spec2Isabelle
  imports Complex_Main "HOL-Library.Multiset"
begin

section \<open>The JavaScript values the handlers receive\<close>

text \<open>
  A JavaScript string is a sequence of UTF-16 code units; a code unit is modelled as a
  natural number. \<open>str\<close> turns an ASCII literal into such a string.
\<close>

type_synonym jsstring = "nat list"

definition str :: "string \<Rightarrow> jsstring" where
  "str s = map of_char s"

text \<open>
  A JavaScript number is an IEEE 754 double: NaN, the two infinities, or a finite value,
  which is a rational number. The two zeros are identified (nothing in this program
  tells them apart: both are falsy, both are \<open>\<le> 0\<close>, both print as 0).
\<close>

datatype jsnum = NaN | PInf | NInf | Fin rat

text \<open>
  A field of a parsed JSON body (\<open>express.json()\<close>) is absent (\<open>undefined\<close>), null, a
  boolean, a number, a string, or an array or object. The handlers never look inside an
  array or object: they only test it for truthiness, convert it to a primitive, or call
  \<open>.trim\<close> on it. So an array or object is represented by the outcome of its conversion to
  a primitive: \<open>Some s\<close> when \<open>toString\<close> yields the string \<open>s\<close> (the joined elements of an
  array, \<open>[object Object]\<close> for a plain object), \<open>None\<close> when the conversion throws a
  TypeError (an object whose own \<open>toString\<close> property shadows the inherited method).
\<close>

datatype jsval =
    JUndefined
  | JNull
  | JBool bool
  | JNum jsnum
  | JStr jsstring
  | JObject "jsstring option"

text \<open>What a \<open>try\<close> block of the server can catch.\<close>

datatype excecao =
    TypeError_not_a_function
  | TypeError_to_primitive
  | TypeError_null_property
  | Rejeicao jsstring

subsection \<open>Truthiness\<close>

fun truthy :: "jsval \<Rightarrow> bool" where
  "truthy JUndefined = False"
| "truthy JNull = False"
| "truthy (JBool b) = b"
| "truthy (JNum n) = (n \<noteq> NaN \<and> n \<noteq> Fin 0)"
| "truthy (JStr s) = (s \<noteq> [])"
| "truthy (JObject p) = True"

subsection \<open>White space and \<open>String.prototype.trim\<close>\<close>

text \<open>
  The code units that ECMAScript counts as WhiteSpace or LineTerminator: TAB, LF, VT, FF,
  CR, SPACE, NBSP, the Unicode space separators, LS, PS and the byte order mark.
\<close>

definition isWhiteSpace :: "nat \<Rightarrow> bool" where
  "isWhiteSpace c \<longleftrightarrow>
     c = 0x09 \<or> c = 0x0A \<or> c = 0x0B \<or> c = 0x0C \<or> c = 0x0D \<or> c = 0x20 \<or> c = 0xA0
     \<or> c = 0x1680 \<or> (0x2000 \<le> c \<and> c \<le> 0x200A) \<or> c = 0x2028 \<or> c = 0x2029
     \<or> c = 0x202F \<or> c = 0x205F \<or> c = 0x3000 \<or> c = 0xFEFF"

definition trimStart :: "jsstring \<Rightarrow> jsstring" where
  "trimStart s = dropWhile isWhiteSpace s"

definition trim :: "jsstring \<Rightarrow> jsstring" where
  "trim s = rev (trimStart (rev (trimStart s)))"

subsection \<open>Rounding to a double\<close>

fun bit_length :: "nat \<Rightarrow> nat" where
  "bit_length n = (if n = 0 then 0 else Suc (bit_length (n div 2)))"

declare bit_length.simps [simp del]

definition pow2 :: "int \<Rightarrow> rat" where
  "pow2 k = (if 0 \<le> k then 2 ^ nat k else 1 / 2 ^ nat (- k))"

text \<open>\<open>floor_log2 n d\<close> is the integer part of the binary logarithm of \<open>n / d\<close>, for positive \<open>n\<close> and \<open>d\<close>.\<close>

definition floor_log2 :: "nat \<Rightarrow> nat \<Rightarrow> int" where
  "floor_log2 n d =
     (let k = int (bit_length n) - int (bit_length d)
      in if (if 0 \<le> k then d * 2 ^ nat k \<le> n else d \<le> n * 2 ^ nat (- k)) then k else k - 1)"

text \<open>The integer nearest to \<open>a / b\<close>, a tie going to the even one.\<close>

definition round_half_even :: "nat \<Rightarrow> nat \<Rightarrow> nat" where
  "round_half_even a b =
     (let f = a div b; r = a mod b
      in if 2 * r < b then f else if b < 2 * r then f + 1 else if even f then f else f + 1)"

text \<open>
  The double nearest to the non-negative fraction \<open>n / d\<close> (round to nearest, ties to
  even): 53 significant bits, the least exponent -1022 (below it the spacing stays
  \<open>2^-1074\<close>, so tiny fractions round to zero), and infinity from \<open>2^1024\<close> on.
\<close>

definition double_of_fraction :: "nat \<Rightarrow> nat \<Rightarrow> jsnum" where
  "double_of_fraction n d =
     (if n = 0 then Fin 0
      else let e = max (floor_log2 n d) (- 1022);
               x = e - 52;
               m = (if 0 \<le> x then round_half_even n (d * 2 ^ nat x)
                    else round_half_even (n * 2 ^ nat (- x)) d)
           in if 1023 < e \<or> (e = 1023 \<and> m = 2 ^ 53) then PInf
              else Fin (of_nat m * pow2 x))"

text \<open>The double nearest to \<open>m * 10^k\<close>.\<close>

definition double_of_decimal :: "nat \<Rightarrow> int \<Rightarrow> jsnum" where
  "double_of_decimal m k =
     (if 0 \<le> k then double_of_fraction (m * 10 ^ nat k) 1
      else double_of_fraction m (10 ^ nat (- k)))"

fun negate :: "jsnum \<Rightarrow> jsnum" where
  "negate NaN = NaN"
| "negate PInf = NInf"
| "negate NInf = PInf"
| "negate (Fin q) = Fin (- q)"

subsection \<open>Numeric literals in strings\<close>

definition isDigit :: "nat \<Rightarrow> bool" where
  "isDigit c \<longleftrightarrow> 0x30 \<le> c \<and> c \<le> 0x39"

text \<open>The value of a digit in a radix up to 16, if the code unit is one.\<close>

definition digitValue :: "nat \<Rightarrow> nat \<Rightarrow> nat option" where
  "digitValue radix c =
     (let v = (if 0x30 \<le> c \<and> c \<le> 0x39 then c - 0x30
               else if 0x61 \<le> c \<and> c \<le> 0x66 then c - 0x61 + 10
               else if 0x41 \<le> c \<and> c \<le> 0x46 then c - 0x41 + 10
               else 16)
      in if v < radix then Some v else None)"

definition isRadixDigit :: "nat \<Rightarrow> nat \<Rightarrow> bool" where
  "isRadixDigit radix c \<longleftrightarrow> digitValue radix c \<noteq> None"

definition digitsValue :: "nat \<Rightarrow> jsstring \<Rightarrow> nat" where
  "digitsValue radix ds =
     foldl (\<lambda>a c. radix * a + (case digitValue radix c of Some v \<Rightarrow> v | None \<Rightarrow> 0)) 0 ds"

text \<open>
  An optional ExponentPart (\<open>e\<close> or \<open>E\<close>, an optional sign, at least one digit) at the head
  of \<open>s\<close>: its value and what follows it. Without a complete exponent nothing is consumed.
\<close>

definition exponentPart :: "jsstring \<Rightarrow> int \<times> jsstring" where
  "exponentPart s =
     (case s of
        [] \<Rightarrow> (0, s)
      | c # t \<Rightarrow>
          if c = 0x65 \<or> c = 0x45 then
            (let minus = (t \<noteq> [] \<and> hd t = 0x2D);
                 u = (if t \<noteq> [] \<and> (hd t = 0x2D \<or> hd t = 0x2B) then tl t else t);
                 ds = takeWhile isDigit u
             in if ds = [] then (0, s)
                else (if minus then - int (digitsValue 10 ds) else int (digitsValue 10 ds),
                      dropWhile isDigit u))
          else (0, s))"

text \<open>
  The longest prefix of \<open>s\<close> that is a StrUnsignedDecimalLiteral (\<open>Infinity\<close>, or digits with
  an optional fraction and exponent, at least one digit before or after the point): its
  value and the rest of the string.
\<close>

definition unsignedDecimal :: "jsstring \<Rightarrow> (jsnum \<times> jsstring) option" where
  "unsignedDecimal s =
     (if take 8 s = str ''Infinity'' then Some (PInf, drop 8 s)
      else let ds = takeWhile isDigit s;
               r1 = dropWhile isDigit s;
               dot = (r1 \<noteq> [] \<and> hd r1 = 0x2E);
               fs = (if dot then takeWhile isDigit (tl r1) else []);
               r2 = (if dot then dropWhile isDigit (tl r1) else r1)
           in if ds = [] \<and> fs = [] then None
              else let (e, r3) = exponentPart r2
                   in Some (double_of_decimal (digitsValue 10 (ds @ fs)) (e - int (length fs)), r3))"

text \<open>The longest prefix that is a StrDecimalLiteral: an optional sign and the above.\<close>

definition strDecimalLiteral :: "jsstring \<Rightarrow> (jsnum \<times> jsstring) option" where
  "strDecimalLiteral s =
     (case s of
        [] \<Rightarrow> None
      | c # t \<Rightarrow>
          if c = 0x2D then map_option (\<lambda>(v, r). (negate v, r)) (unsignedDecimal t)
          else if c = 0x2B then unsignedDecimal t
          else unsignedDecimal s)"

text \<open>\<open>0x\<close>, \<open>0o\<close> and \<open>0b\<close> integers (either case of the letter), which take no sign.\<close>

definition nonDecimalRadix :: "jsstring \<Rightarrow> nat option" where
  "nonDecimalRadix s =
     (case s of
        a # b # t \<Rightarrow>
          if a \<noteq> 0x30 then None
          else if b = 0x78 \<or> b = 0x58 then Some 16
          else if b = 0x6F \<or> b = 0x4F then Some 8
          else if b = 0x62 \<or> b = 0x42 then Some 2
          else None
      | _ \<Rightarrow> None)"

text \<open>
  StringToNumber, the conversion behind \<open>Number(s)\<close>, \<open>isNaN(s)\<close> and \<open>s <= 0\<close>: white space
  around the literal is ignored, the empty string is 0, and the whole of what remains
  must be one numeric literal.
\<close>

definition stringToNumber :: "jsstring \<Rightarrow> jsnum" where
  "stringToNumber s =
     (let t = trim s
      in if t = [] then Fin 0
         else case nonDecimalRadix t of
                Some radix \<Rightarrow>
                  (let ds = drop 2 t
                   in if ds \<noteq> [] \<and> list_all (isRadixDigit radix) ds
                      then double_of_fraction (digitsValue radix ds) 1 else NaN)
              | None \<Rightarrow>
                  (case strDecimalLiteral t of
                     Some (v, []) \<Rightarrow> v
                   | _ \<Rightarrow> NaN))"

text \<open>\<open>parseFloat\<close> of a string: leading white space is skipped, trailing text ignored.\<close>

definition parseFloat_str :: "jsstring \<Rightarrow> jsnum" where
  "parseFloat_str s =
     (case strDecimalLiteral (trimStart s) of None \<Rightarrow> NaN | Some (v, r) \<Rightarrow> v)"

text \<open>
  \<open>parseInt\<close> of a string with no radix argument: leading white space, a sign, an
  optional \<open>0x\<close> selecting radix 16, then the longest run of digits; NaN without a digit.
\<close>

definition parseInt_str :: "jsstring \<Rightarrow> jsnum" where
  "parseInt_str s =
     (let t = trimStart s;
          minus = (t \<noteq> [] \<and> hd t = 0x2D);
          u = (if t \<noteq> [] \<and> (hd t = 0x2D \<or> hd t = 0x2B) then tl t else t);
          hex = (case u of a # b # v \<Rightarrow> a = 0x30 \<and> (b = 0x78 \<or> b = 0x58) | _ \<Rightarrow> False);
          radix = (if hex then 16 else 10);
          w = (if hex then drop 2 u else u);
          z = takeWhile (isRadixDigit radix) w
      in if z = [] then NaN
         else let v = double_of_fraction (digitsValue radix z) 1
              in if minus then negate v else v)"

subsection \<open>Conversions applied to a field of the body\<close>

text \<open>ToNumber: what \<open>isNaN(v)\<close> and \<open>v <= 0\<close> compare.\<close>

fun toNumber :: "jsval \<Rightarrow> excecao + jsnum" where
  "toNumber JUndefined = Inr NaN"
| "toNumber JNull = Inr (Fin 0)"
| "toNumber (JBool b) = Inr (Fin (if b then 1 else 0))"
| "toNumber (JNum n) = Inr n"
| "toNumber (JStr s) = Inr (stringToNumber s)"
| "toNumber (JObject None) = Inl TypeError_to_primitive"
| "toNumber (JObject (Some s)) = Inr (stringToNumber s)"

definition isNaN :: "jsval \<Rightarrow> excecao + bool" where
  "isNaN v = (case toNumber v of Inl e \<Rightarrow> Inl e | Inr n \<Rightarrow> Inr (n = NaN))"

text \<open>\<open>n <= 0\<close> on numbers: false for NaN.\<close>

fun le_zero :: "jsnum \<Rightarrow> bool" where
  "le_zero NaN = False"
| "le_zero PInf = False"
| "le_zero NInf = True"
| "le_zero (Fin q) = (q \<le> 0)"

definition lessEqZero :: "jsval \<Rightarrow> excecao + bool" where
  "lessEqZero v = (case toNumber v of Inl e \<Rightarrow> Inl e | Inr n \<Rightarrow> Inr (le_zero n))"

text \<open>
  \<open>parseFloat(v)\<close> converts \<open>v\<close> to a string and parses that. The strings \<open>undefined\<close>,
  \<open>null\<close>, \<open>true\<close> and \<open>false\<close> do not start a number; the decimal string of a number
  parses back to the same number.
\<close>

fun parseFloat :: "jsval \<Rightarrow> excecao + jsnum" where
  "parseFloat JUndefined = Inr NaN"
| "parseFloat JNull = Inr NaN"
| "parseFloat (JBool b) = Inr NaN"
| "parseFloat (JNum n) = Inr n"
| "parseFloat (JStr s) = Inr (parseFloat_str s)"
| "parseFloat (JObject None) = Inl TypeError_to_primitive"
| "parseFloat (JObject (Some s)) = Inr (parseFloat_str s)"

text \<open>\<open>v.trim()\<close>: only a string has the method.\<close>

fun trim_method :: "jsval \<Rightarrow> excecao + jsstring" where
  "trim_method (JStr s) = Inr (trim s)"
| "trim_method JUndefined = Inl TypeError_null_property"
| "trim_method JNull = Inl TypeError_null_property"
| "trim_method (JBool b) = Inl TypeError_not_a_function"
| "trim_method (JNum n) = Inl TypeError_not_a_function"
| "trim_method (JObject p) = Inl TypeError_not_a_function"

section \<open>The API service\<close>

subsection \<open>Records, store and responses\<close>

text \<open>
  The three fields \<open>nome\<close>, \<open>preco\<close>, \<open>descricao\<close> occur with three typings: as raw JSON
  values in \<open>req.body\<close> (an object; a field it lacks is \<open>undefined\<close>), as the object given
  to \<open>insert\<close>, and inside a stored row. A row has the columns \<open>id\<close> (written \<open>ident\<close>
  here) and \<open>created_at\<close> besides, both assigned by the store.
\<close>

record ('n, 'p, 'd) campos =
  nome :: 'n
  preco :: 'p
  descricao :: 'd

type_synonym req_body = "(jsval, jsval, jsval) campos"

type_synonym registro = "(jsstring, jsnum, jsstring option) campos"

record produto = "(jsstring, jsnum, jsstring option) campos" +
  ident :: int
  created_at :: int

text \<open>
  The three queries the service builds on the table \<open>produtos\<close>:
  \<open>select('*').order('created_at', {ascending: false})\<close>,
  \<open>insert([r]).select()\<close> and \<open>delete().eq('id', k).select()\<close>.
\<close>

datatype consulta =
    Select_order_created_at_desc
  | Insert_select registro
  | Delete_eq_id_select jsnum

text \<open>
  An awaited query resolves to \<open>{data, error}\<close> (either may be null; \<open>error\<close> is
  represented by its \<open>message\<close>) or rejects with an exception.
\<close>

datatype resultado =
    Resolved "produto list option" "jsstring option"
  | Rejected excecao

type_synonym store = "consulta \<Rightarrow> resultado"

text \<open>The literal messages of the service.\<close>

datatype mensagem =
    Erro_ao_buscar_produtos
  | Nome_e_preco_sao_obrigatorios
  | Preco_deve_ser_um_numero_maior_que_zero
  | Erro_ao_cadastrar_produto
  | Produto_cadastrado_com_sucesso
  | ID_deve_ser_um_numero_valido
  | Erro_ao_excluir_produto
  | Produto_nao_encontrado
  | Produto_excluido_com_sucesso
  | Erro_interno_do_servidor

text \<open>Their text, as sequences of code units (an accented letter is one code unit).\<close>

fun texto :: "mensagem \<Rightarrow> jsstring" where
  "texto Erro_ao_buscar_produtos = str ''Erro ao buscar produtos''"
| "texto Nome_e_preco_sao_obrigatorios =
     str ''Nome e pre'' @ [0xE7] @ str ''o s'' @ [0xE3] @ str ''o obrigat'' @ [0xF3] @ str ''rios''"
| "texto Preco_deve_ser_um_numero_maior_que_zero =
     str ''Pre'' @ [0xE7] @ str ''o deve ser um n'' @ [0xFA] @ str ''mero maior que zero''"
| "texto Erro_ao_cadastrar_produto = str ''Erro ao cadastrar produto''"
| "texto Produto_cadastrado_com_sucesso = str ''Produto cadastrado com sucesso!''"
| "texto ID_deve_ser_um_numero_valido =
     str ''ID deve ser um n'' @ [0xFA] @ str ''mero v'' @ [0xE1] @ str ''lido''"
| "texto Erro_ao_excluir_produto = str ''Erro ao excluir produto''"
| "texto Produto_nao_encontrado = str ''Produto n'' @ [0xE3] @ str ''o encontrado''"
| "texto Produto_excluido_com_sucesso = str ''Produto exclu'' @ [0xED] @ str ''do com sucesso!''"
| "texto Erro_interno_do_servidor = str ''Erro interno do servidor''"

text \<open>The \<open>error\<close> field: the \<open>message\<close> of a store error or of a caught exception.\<close>

datatype erro = Do_store jsstring | Da_excecao excecao

datatype dados = Lista "produto list" | Item produto

record resposta =
  status :: nat
  success :: bool
  message :: "mensagem option"
  error :: "erro option"
  data :: "dados option"
  total :: "nat option"

text \<open>The envelope of a failure with a message only, and that of the \<open>catch\<close> blocks.\<close>

definition falha :: "nat \<Rightarrow> mensagem \<Rightarrow> erro option \<Rightarrow> resposta" where
  "falha st m e =
     \<lparr>status = st, success = False, message = Some m, error = e, data = None, total = None\<rparr>"

definition erro_interno :: "excecao \<Rightarrow> resposta" where
  "erro_interno e = falha 500 Erro_interno_do_servidor (Some (Da_excecao e))"

text \<open>\<open>data[0]\<close>: undefined on an empty array, and then left out of the JSON.\<close>

definition primeiro :: "produto list \<Rightarrow> dados option" where
  "primeiro rows = (case rows of [] \<Rightarrow> None | r # rs \<Rightarrow> Some (Item r))"

subsection \<open>GET /api/produtos\<close>

text \<open>Each handler returns its response and the queries it sent to the store, in order.\<close>

definition get_api_produtos :: "store \<Rightarrow> resposta \<times> consulta list" where
  "get_api_produtos store =
     (let q = Select_order_created_at_desc
      in (case store q of
            Rejected e \<Rightarrow> erro_interno e
          | Resolved dat err \<Rightarrow>
              (case err of
                 Some m \<Rightarrow> falha 400 Erro_ao_buscar_produtos (Some (Do_store m))
               | None \<Rightarrow>
                   (case dat of
                      None \<Rightarrow> erro_interno TypeError_null_property
                    | Some rows \<Rightarrow>
                        \<lparr>status = 200, success = True, message = None, error = None,
                         data = Some (Lista rows), total = Some (length rows)\<rparr>)),
          [q]))"

subsection \<open>POST /api/produtos\<close>

definition post_api_produtos :: "store \<Rightarrow> req_body \<Rightarrow> resposta \<times> consulta list" where
  "post_api_produtos store body =
     (if \<not> truthy (nome body) \<or> \<not> truthy (preco body)
      then (falha 400 Nome_e_preco_sao_obrigatorios None, [])
      else case isNaN (preco body) of
        Inl e \<Rightarrow> (erro_interno e, [])
      | Inr True \<Rightarrow> (falha 400 Preco_deve_ser_um_numero_maior_que_zero None, [])
      | Inr False \<Rightarrow>
      (case lessEqZero (preco body) of
        Inl e \<Rightarrow> (erro_interno e, [])
      | Inr True \<Rightarrow> (falha 400 Preco_deve_ser_um_numero_maior_que_zero None, [])
      | Inr False \<Rightarrow>
      (case trim_method (nome body) of
        Inl e \<Rightarrow> (erro_interno e, [])
      | Inr n \<Rightarrow>
      (case parseFloat (preco body) of
        Inl e \<Rightarrow> (erro_interno e, [])
      | Inr p \<Rightarrow>
      (case (if truthy (descricao body)
             then (case trim_method (descricao body) of Inl e \<Rightarrow> Inl e | Inr d \<Rightarrow> Inr (Some d))
             else Inr None) of
        Inl e \<Rightarrow> (erro_interno e, [])
      | Inr d \<Rightarrow>
          (let q = Insert_select \<lparr>nome = n, preco = p, descricao = d\<rparr>
           in (case store q of
                 Rejected e \<Rightarrow> erro_interno e
               | Resolved dat err \<Rightarrow>
                   (case err of
                      Some m \<Rightarrow> falha 400 Erro_ao_cadastrar_produto (Some (Do_store m))
                    | None \<Rightarrow>
                        (case dat of
                           None \<Rightarrow> erro_interno TypeError_null_property
                         | Some rows \<Rightarrow>
                             \<lparr>status = 201, success = True,
                              message = Some Produto_cadastrado_com_sucesso, error = None,
                              data = primeiro rows, total = None\<rparr>)),
               [q])))))))"

subsection \<open>DELETE /api/produtos/:id\<close>

text \<open>The route parameter \<open>id\<close> is always a string.\<close>

definition delete_api_produtos_id :: "store \<Rightarrow> jsstring \<Rightarrow> resposta \<times> consulta list" where
  "delete_api_produtos_id store id' =
     (if stringToNumber id' = NaN
      then (falha 400 ID_deve_ser_um_numero_valido None, [])
      else let q = Delete_eq_id_select (parseInt_str id')
           in (case store q of
                 Rejected e \<Rightarrow> erro_interno e
               | Resolved dat err \<Rightarrow>
                   (case err of
                      Some m \<Rightarrow> falha 400 Erro_ao_excluir_produto (Some (Do_store m))
                    | None \<Rightarrow>
                        (case dat of
                           None \<Rightarrow> erro_interno TypeError_null_property
                         | Some rows \<Rightarrow>
                             if length rows = 0 then falha 404 Produto_nao_encontrado None
                             else \<lparr>status = 200, success = True,
                                   message = Some Produto_excluido_com_sucesso, error = None,
                                   data = primeiro rows, total = None\<rparr>)),
               [q]))"

subsection \<open>What the store does with the list query\<close>

text \<open>
  Modelled from the spec: the answer of the external store (a managed database, no part
  of the repository) to the list query, "all records ordered by creation time
  descending": the rows of the table, newest first; rows of equal time keep their order.
\<close>

definition select_order_created_at_desc :: "produto list \<Rightarrow> produto list" where
  "select_order_created_at_desc tabela = sort_key (\<lambda>p. - created_at p) tabela"

section \<open>The client application\<close>

subsection \<open>State, requests and effects\<close>

datatype http_method = GET | POST | DELETE

text \<open>A call of \<open>fetch\<close>; \<open>corpo\<close> is the object given to \<open>JSON.stringify\<close>.\<close>

record pedido =
  metodo :: http_method
  url :: jsstring
  corpo :: "registro option"

text \<open>
  What the client reads of an answer: \<open>Falhou m\<close> when \<open>fetch\<close> or \<open>response.json()\<close>
  throws an error with message \<open>m\<close>; otherwise \<open>response.ok\<close> and, of the JSON object
  in the body, \<open>data.message\<close> and \<open>data.data\<close> (which only the list refresh reads).
\<close>

datatype resposta_fetch =
    Falhou jsstring
  | Respondeu bool "jsstring option" "produto list option"

text \<open>The API seen from the client: a server with a state of its own.\<close>

type_synonym 's api = "'s \<Rightarrow> pedido \<Rightarrow> resposta_fetch \<times> 's"

text \<open>
  The globals \<open>produtos\<close> and \<open>produtoParaExcluir\<close> (an id or null), the values of the
  three form inputs, and the server the page talks to. Each function below is one
  handler run from its start to its end: what it awaits is answered at once, and no
  other handler runs in between.
\<close>

record 's cliente =
  produtos :: "produto list"
  produtoParaExcluir :: "int option"
  inputNome :: jsstring
  inputPreco :: jsstring
  inputDescricao :: jsstring
  servidor :: 's

text \<open>The literal notifications of the client; the templates carry \<open>error.message\<close>.\<close>

datatype aviso =
    Aviso_nome_do_produto_e_obrigatorio
  | Aviso_preco_deve_ser_maior_que_zero
  | Aviso_produto_cadastrado_com_sucesso
  | Aviso_produto_excluido_com_sucesso
  | Aviso_erro_ao_carregar_produtos jsstring
  | Aviso_erro_ao_cadastrar_produto jsstring
  | Aviso_erro_ao_excluir_produto jsstring

datatype tipo = Sucesso | Erro | Info

datatype campo = Campo_nome | Campo_preco

text \<open>What a handler does to the page and the network, in order.\<close>

datatype efeito =
    Notificacao aviso tipo
  | Focus campo
  | Fetch pedido
  | Loading_cadastro bool
  | Form_reset
  | Mostrar_loading
  | Mostrar_lista_vazia
  | Renderizar "produto list"
  | Abrir_modal jsstring
  | Fechar_modal

definition API_BASE_URL :: jsstring where
  "API_BASE_URL = str ''http://localhost:3000/api''"

subsection \<open>Template literals\<close>

fun digitos :: "nat \<Rightarrow> jsstring" where
  "digitos n = (if n < 10 then [0x30 + n] else digitos (n div 10) @ [0x30 + n mod 10])"

declare digitos.simps [simp del]

text \<open>
  \<open>${id}\<close> for an id or null: \<open>null\<close> prints as the text null, an integer (below
  \<open>10^21\<close>) as its decimal digits.
\<close>

definition interpola :: "int option \<Rightarrow> jsstring" where
  "interpola v =
     (case v of
        None \<Rightarrow> str ''null''
      | Some i \<Rightarrow> if i < 0 then 0x2D # digitos (nat (- i)) else digitos (nat i))"

text \<open>\<open>data.message || padrao\<close>.\<close>

definition ou_padrao :: "jsstring option \<Rightarrow> jsstring \<Rightarrow> jsstring" where
  "ou_padrao m padrao = (case m of None \<Rightarrow> padrao | Some t \<Rightarrow> if t = [] then padrao else t)"

subsection \<open>API functions\<close>

definition fetch :: "'s api \<Rightarrow> pedido \<Rightarrow> 's cliente \<Rightarrow> resposta_fetch \<times> 's cliente" where
  "fetch api req c = (let (r, s) = api (servidor c) req in (r, c\<lparr>servidor := s\<rparr>))"

text \<open>
  The outcome of the \<open>try\<close> part up to the check of \<open>response.ok\<close>: the message of the
  error thrown, or \<open>data.data\<close>.
\<close>

definition verifica :: "resposta_fetch \<Rightarrow> jsstring \<Rightarrow> jsstring + produto list option" where
  "verifica r padrao =
     (case r of
        Falhou m \<Rightarrow> Inl m
      | Respondeu ok m dat \<Rightarrow> if \<not> ok then Inl (ou_padrao m padrao) else Inr dat)"

definition renderizarProdutos :: "'s cliente \<Rightarrow> efeito list" where
  "renderizarProdutos c = [Renderizar (produtos c)]"

definition buscarProdutos :: "'s api \<Rightarrow> 's cliente \<Rightarrow> 's cliente \<times> efeito list" where
  "buscarProdutos api c =
     (let req = \<lparr>metodo = GET, url = API_BASE_URL @ str ''/produtos'', corpo = None\<rparr>;
          (r, c1) = fetch api req c
      in case verifica r (str ''Erro ao buscar produtos'') of
           Inl m \<Rightarrow>
             (c1, [Mostrar_loading, Fetch req,
                   Notificacao (Aviso_erro_ao_carregar_produtos m) Erro, Mostrar_lista_vazia])
         | Inr dat \<Rightarrow>
             (let c2 = c1\<lparr>produtos := (case dat of None \<Rightarrow> [] | Some ps \<Rightarrow> ps)\<rparr>
              in (c2, [Mostrar_loading, Fetch req] @ renderizarProdutos c2)))"

text \<open>\<open>formProduto.reset()\<close> puts the three inputs back to their initial, empty values.\<close>

definition cadastrarProduto ::
    "'s api \<Rightarrow> registro \<Rightarrow> 's cliente \<Rightarrow> 's cliente \<times> efeito list" where
  "cadastrarProduto api dadosProduto c =
     (let req = \<lparr>metodo = POST, url = API_BASE_URL @ str ''/produtos'',
                 corpo = Some dadosProduto\<rparr>;
          (r, c1) = fetch api req c
      in case verifica r (str ''Erro ao cadastrar produto'') of
           Inl m \<Rightarrow> (c1, [Fetch req, Notificacao (Aviso_erro_ao_cadastrar_produto m) Erro])
         | Inr dat \<Rightarrow>
             (let c2 = c1\<lparr>inputNome := [], inputPreco := [], inputDescricao := []\<rparr>;
                  (c3, es) = buscarProdutos api c2
              in (c3, [Fetch req, Notificacao Aviso_produto_cadastrado_com_sucesso Sucesso,
                       Form_reset] @ es)))"

definition excluirProduto ::
    "'s api \<Rightarrow> int option \<Rightarrow> 's cliente \<Rightarrow> 's cliente \<times> efeito list" where
  "excluirProduto api id' c =
     (let req = \<lparr>metodo = DELETE, url = API_BASE_URL @ str ''/produtos/'' @ interpola id',
                 corpo = None\<rparr>;
          (r, c1) = fetch api req c
      in case verifica r (str ''Erro ao excluir produto'') of
           Inl m \<Rightarrow> (c1, [Fetch req, Notificacao (Aviso_erro_ao_excluir_produto m) Erro])
         | Inr dat \<Rightarrow>
             (let (c2, es) = buscarProdutos api c1
              in (c2, [Fetch req, Notificacao Aviso_produto_excluido_com_sucesso Sucesso] @ es)))"

subsection \<open>Interface functions\<close>

definition confirmarExclusao :: "int \<Rightarrow> jsstring \<Rightarrow> 's cliente \<Rightarrow> 's cliente \<times> efeito list" where
  "confirmarExclusao id' nome' c = (c\<lparr>produtoParaExcluir := Some id'\<rparr>, [Abrir_modal nome'])"

definition cancelarExclusao :: "'s cliente \<Rightarrow> 's cliente \<times> efeito list" where
  "cancelarExclusao c = (c\<lparr>produtoParaExcluir := None\<rparr>, [Fechar_modal])"

text \<open>\<open>if (produtoParaExcluir)\<close>: null and 0 are falsy.\<close>

definition executarExclusao :: "'s api \<Rightarrow> 's cliente \<Rightarrow> 's cliente \<times> efeito list" where
  "executarExclusao api c =
     (if produtoParaExcluir c \<noteq> None \<and> produtoParaExcluir c \<noteq> Some 0
      then (let (c1, es1) = cancelarExclusao c;
                (c2, es2) = excluirProduto api (produtoParaExcluir c1) c1
            in (c2, es1 @ es2))
      else (c, []))"

subsection \<open>The submit listener of the form\<close>

definition submit :: "'s api \<Rightarrow> 's cliente \<Rightarrow> 's cliente \<times> efeito list" where
  "submit api c =
     (let dadosProduto =
            \<lparr>nome = trim (inputNome c),
             preco = parseFloat_str (inputPreco c),
             descricao = (if trim (inputDescricao c) = [] then None
                          else Some (trim (inputDescricao c)))\<rparr>
      in if nome dadosProduto = []
         then (c, [Notificacao Aviso_nome_do_produto_e_obrigatorio Erro, Focus Campo_nome])
         else if \<not> truthy (JNum (preco dadosProduto)) \<or> le_zero (preco dadosProduto)
         then (c, [Notificacao Aviso_preco_deve_ser_maior_que_zero Erro, Focus Campo_preco])
         else (let (c1, es) = cadastrarProduto api dadosProduto c
               in (c1, [Loading_cadastro True] @ es @ [Loading_cadastro False])))"

text \<open>The requests among the effects of a handler.\<close>

fun pedidos :: "efeito list \<Rightarrow> pedido list" where
  "pedidos [] = []"
| "pedidos (Fetch req # es) = req # pedidos es"
| "pedidos (e # es) = pedidos es"

section \<open>Sample data, stores and a server for the client\<close>

text \<open>Two rows, and a page whose server state is a table.\<close>

definition bolo :: produto where
  "bolo = \<lparr>nome = str ''Bolo'', preco = Fin 12, descricao = None, ident = 7, created_at = 100\<rparr>"

definition pao :: produto where
  "pao = \<lparr>nome = [0x50, 0xE3, 0x6F], preco = Fin (11 / 2), descricao = None, ident = 8,
          created_at = 200\<rparr>"

text \<open>
  A store over a fixed table: it answers the list query as above, echoes an inserted
  record with a fresh id and time, and returns the rows whose id equals the key of a
  delete. \<open>store_com_erro\<close> answers every query with an error.
\<close>

definition store_de :: "produto list \<Rightarrow> store" where
  "store_de tabela q =
     (case q of
        Select_order_created_at_desc \<Rightarrow>
          Resolved (Some (select_order_created_at_desc tabela)) None
      | Insert_select r \<Rightarrow>
          Resolved (Some [\<lparr>nome = nome r, preco = preco r, descricao = descricao r,
                           ident = int (length tabela) + 1,
                           created_at = int (length tabela)\<rparr>]) None
      | Delete_eq_id_select k \<Rightarrow>
          Resolved (Some (filter (\<lambda>p. Fin (of_int (ident p)) = k) tabela)) None)"

definition store_com_erro :: "jsstring \<Rightarrow> store" where
  "store_com_erro m q = Resolved None (Some m)"

text \<open>
  The API service as the client reaches it: the three handlers over \<open>store_de\<close>, the
  table being the server's state. \<open>response.ok\<close> is a status from 200 to 299;
  \<open>JSON.stringify\<close> writes a number that is not finite as null.
\<close>

definition envelope :: "resposta \<Rightarrow> resposta_fetch" where
  "envelope r =
     Respondeu (200 \<le> status r \<and> status r \<le> 299) (map_option texto (message r))
       (case data r of Some (Lista ps) \<Rightarrow> Some ps | _ \<Rightarrow> None)"

definition json_body :: "registro \<Rightarrow> req_body" where
  "json_body d =
     \<lparr>nome = JStr (nome d),
      preco = (case preco d of Fin q \<Rightarrow> JNum (Fin q) | _ \<Rightarrow> JNull),
      descricao = (case descricao d of None \<Rightarrow> JNull | Some t \<Rightarrow> JStr t)\<rparr>"

fun stripPrefix :: "jsstring \<Rightarrow> jsstring \<Rightarrow> jsstring option" where
  "stripPrefix [] s = Some s"
| "stripPrefix (p # ps) [] = None"
| "stripPrefix (p # ps) (c # cs) = (if p = c then stripPrefix ps cs else None)"

definition rota_nao_encontrada :: resposta_fetch where
  "rota_nao_encontrada =
     Respondeu False (Some (str ''Rota n'' @ [0xE3] @ str ''o encontrada'')) None"

definition servidor_api :: "produto list api" where
  "servidor_api tabela req =
     (if metodo req = GET \<and> url req = API_BASE_URL @ str ''/produtos''
      then (envelope (fst (get_api_produtos (store_de tabela))), tabela)
      else if metodo req = POST \<and> url req = API_BASE_URL @ str ''/produtos''
      then (let r = fst (post_api_produtos (store_de tabela)
                          (case corpo req of
                             None \<Rightarrow> \<lparr>nome = JUndefined, preco = JUndefined,
                                       descricao = JUndefined\<rparr>
                           | Some d \<Rightarrow> json_body d))
            in (envelope r, case data r of Some (Item p) \<Rightarrow> tabela @ [p] | _ \<Rightarrow> tabela))
      else if metodo req = DELETE
      then (case stripPrefix (API_BASE_URL @ str ''/produtos/'') (url req) of
              None \<Rightarrow> (rota_nao_encontrada, tabela)
            | Some id' \<Rightarrow>
                (let r = fst (delete_api_produtos_id (store_de tabela) id')
                 in (envelope r,
                     case data r of
                       Some (Item p) \<Rightarrow> filter (\<lambda>x. ident x \<noteq> ident p) tabela
                     | _ \<Rightarrow> tabela)))
      else (rota_nao_encontrada, tabela))"

definition pagina ::
    "produto list \<Rightarrow> jsstring \<Rightarrow> jsstring \<Rightarrow> jsstring \<Rightarrow> produto list cliente" where
  "pagina tabela n p d =
     \<lparr>produtos = tabela, produtoParaExcluir = None, inputNome = n, inputPreco = p,
      inputDescricao = d, servidor = tabela\<rparr>"

text \<open>The request of a list refresh.\<close>

definition pedido_lista :: pedido where
  "pedido_lista = \<lparr>metodo = GET, url = API_BASE_URL @ str ''/produtos'', corpo = None\<rparr>"

section \<open>Evaluation and parsing lemmas\<close>

lemmas js_eval = str_def isWhiteSpace_def trimStart_def trim_def bit_length.simps pow2_def
  floor_log2_def round_half_even_def double_of_fraction_def double_of_decimal_def isDigit_def
  digitValue_def isRadixDigit_def digitsValue_def exponentPart_def unsignedDecimal_def
  strDecimalLiteral_def nonDecimalRadix_def stringToNumber_def parseFloat_str_def
  parseInt_str_def Let_def

subsection \<open>Concrete strings\<close>

lemma stringToNumber_7: "stringToNumber (str ''7'') = Fin 7"
  by (simp add: js_eval)

lemma parseInt_7: "parseInt_str (str ''7'') = Fin 7"
  by (simp add: js_eval)


lemma stringToNumber_null: "stringToNumber (str ''null'') = NaN"
  by (simp add: js_eval)

lemma stringToNumber_550: "stringToNumber (str ''5.50'') = Fin (11 / 2)"
  by (simp add: js_eval)

lemma parseFloat_550: "parseFloat_str (str ''5.50'') = Fin (11 / 2)"
  by (simp add: js_eval)

lemma parseFloat_abc: "parseFloat_str (str ''abc'') = NaN"
  by (simp add: js_eval)

lemma parseFloat_12: "parseFloat_str (str ''12'') = Fin 12"
  by (simp add: js_eval)

lemma str_550_not_empty: "str ''5.50'' \<noteq> []"
  by (simp add: str_def)

lemma str_bolo_not_empty: "str ''Bolo'' \<noteq> []"
  by (simp add: str_def)

lemma str_fresco_not_empty: "str ''  fresco '' \<noteq> []"
  by (simp add: str_def)

lemma trim_pao: "trim [0x50, 0xE3, 0x6F] = [0x50, 0xE3, 0x6F]"
  by (simp add: trim_def trimStart_def isWhiteSpace_def)

lemma trim_bolo: "trim (str ''Bolo'') = str ''Bolo''"
  by (simp add: js_eval)

lemma trim_fresco: "trim (str ''  fresco '') = str ''fresco''"
  by (simp add: js_eval)

lemma trim_spaces: "trim (str ''   '') = []"
  by (simp add: js_eval)

lemma trim_empty: "trim [] = []"
  by (simp add: trim_def trimStart_def)

lemma texto_not_empty: "texto m \<noteq> []"
  by (cases m) (simp_all add: str_def)

lemma url_null:
  "API_BASE_URL @ str ''/produtos/'' @ interpola None
     = str ''http://localhost:3000/api/produtos/null''"
  by (simp add: API_BASE_URL_def interpola_def str_def)

lemma url_7:
  "API_BASE_URL @ str ''/produtos/'' @ interpola (Some 7)
     = str ''http://localhost:3000/api/produtos/7''"
  by (simp add: API_BASE_URL_def interpola_def str_def digitos.simps)

lemma select_bolo_pao: "select_order_created_at_desc [bolo, pao] = [pao, bolo]"
  by (simp add: select_order_created_at_desc_def bolo_def pao_def)

subsection \<open>Rounding never yields NaN and keeps integers below \<open>2^53\<close>\<close>





subsection \<open>Parsing digits, a point, digits\<close>














section \<open>Lemmas on the handlers\<close>

subsection \<open>The queries a handler sends\<close>

lemma delete_calls:
  "snd (delete_api_produtos_id store id') =
     (if stringToNumber id' = NaN then [] else [Delete_eq_id_select (parseInt_str id')])"
  by (simp add: delete_api_produtos_id_def Let_def)

lemma post_empty_name_rejected:
  "nome body = JStr [] \<Longrightarrow>
   post_api_produtos store body = (falha 400 Nome_e_preco_sao_obrigatorios None, [])"
  by (simp add: post_api_produtos_def)

lemma post_non_positive_price_rejected:
  assumes "toNumber (preco body) = Inr n" and "le_zero n"
  shows "\<exists>m. post_api_produtos store body = (falha 400 m None, [])"
  using assms by (cases n) (auto simp add: post_api_produtos_def isNaN_def lessEqZero_def)

lemma post_insert_only_after_validation:
  assumes "snd (post_api_produtos store body) = [Insert_select r]"
  shows "truthy (nome body)
         \<and> (\<exists>n. toNumber (preco body) = Inr n \<and> n \<noteq> NaN \<and> \<not> le_zero n)"
  using assms
  by (auto simp add: post_api_produtos_def isNaN_def lessEqZero_def
      split: if_splits sum.splits bool.splits)

lemma post_sent_record:
  assumes "snd (post_api_produtos store body) = [Insert_select r]"
  shows "(\<not> truthy (descricao body) \<longrightarrow> descricao r = None)
         \<and> (truthy (descricao body) \<longrightarrow>
              (\<exists>s. descricao body = JStr s \<and> descricao r = Some (trim s)))"
proof (cases "truthy (descricao body)")
  case False
  with assms show ?thesis
    by (auto simp add: post_api_produtos_def Let_def split: if_splits sum.splits bool.splits)
next
  case True
  with assms show ?thesis
    by (cases "descricao body")
       (auto simp add: post_api_produtos_def Let_def split: if_splits sum.splits bool.splits)
qed

lemma post_calls_fresco:
  "snd (post_api_produtos (store_de [])
          \<lparr>nome = JStr (str ''Bolo''), preco = JNum (Fin 12),
           descricao = JStr (str ''  fresco '')\<rparr>)
   = [Insert_select \<lparr>nome = str ''Bolo'', preco = Fin 12, descricao = Some (str ''fresco'')\<rparr>]"
  by (simp add: post_api_produtos_def isNaN_def lessEqZero_def Let_def str_bolo_not_empty
      trim_bolo str_fresco_not_empty trim_fresco)

lemma post_calls_absent:
  "snd (post_api_produtos (store_de [])
          \<lparr>nome = JStr (str ''Bolo''), preco = JNum (Fin 12), descricao = JUndefined\<rparr>)
   = [Insert_select \<lparr>nome = str ''Bolo'', preco = Fin 12, descricao = None\<rparr>]"
  by (simp add: post_api_produtos_def isNaN_def lessEqZero_def Let_def str_bolo_not_empty
      trim_bolo)

subsection \<open>The list query\<close>

lemma select_sorted:
  "sorted_wrt (\<lambda>a b. created_at b \<le> created_at a) (select_order_created_at_desc tabela)"
proof -
  have "sorted (map (\<lambda>p. - created_at p) (sort_key (\<lambda>p. - created_at p) tabela))"
    by (rule sorted_sort_key)
  then show ?thesis
    by (simp add: select_order_created_at_desc_def sorted_map)
qed

lemma select_mset: "mset (select_order_created_at_desc tabela) = mset tabela"
  by (simp add: select_order_created_at_desc_def)

subsection \<open>The requests of the client functions\<close>

lemma pedidos_append: "pedidos (xs @ ys) = pedidos xs @ pedidos ys"
  by (induction xs rule: pedidos.induct) simp_all

lemma pedidos_buscarProdutos: "pedidos (snd (buscarProdutos api c)) = [pedido_lista]"
  by (simp add: buscarProdutos_def Let_def renderizarProdutos_def pedido_lista_def
      split: prod.splits sum.splits)

lemma produtos_buscarProdutos:
  "produtos (fst (buscarProdutos api c))
     = (case verifica (fst (api (servidor c) pedido_lista)) (str ''Erro ao buscar produtos'') of
          Inl m \<Rightarrow> produtos c
        | Inr dat \<Rightarrow> (case dat of None \<Rightarrow> [] | Some ps \<Rightarrow> ps))"
  by (simp add: buscarProdutos_def Let_def fetch_def pedido_lista_def split_def
      split: sum.splits)

lemma pedidos_cadastrarProduto:
  "pedidos (snd (cadastrarProduto api d c))
     = \<lparr>metodo = POST, url = API_BASE_URL @ str ''/produtos'', corpo = Some d\<rparr>
       # (case verifica
                 (fst (api (servidor c)
                        \<lparr>metodo = POST, url = API_BASE_URL @ str ''/produtos'', corpo = Some d\<rparr>))
                 (str ''Erro ao cadastrar produto'') of
            Inl m \<Rightarrow> [] | Inr dat \<Rightarrow> [pedido_lista])"
  by (simp add: cadastrarProduto_def Let_def fetch_def pedidos_append
       split: prod.splits sum.splits)
     (metis pedidos_buscarProdutos snd_conv)

lemma pedidos_excluirProduto:
  "pedidos (snd (excluirProduto api i c))
     = \<lparr>metodo = DELETE, url = API_BASE_URL @ str ''/produtos/'' @ interpola i, corpo = None\<rparr>
       # (case verifica
                 (fst (api (servidor c)
                        \<lparr>metodo = DELETE, url = API_BASE_URL @ str ''/produtos/'' @ interpola i,
                         corpo = None\<rparr>))
                 (str ''Erro ao excluir produto'') of
            Inl m \<Rightarrow> [] | Inr dat \<Rightarrow> [pedido_lista])"
  by (simp add: excluirProduto_def Let_def fetch_def pedidos_append
       split: prod.splits sum.splits)
     (metis pedidos_buscarProdutos snd_conv)

lemma submit_posts:
  assumes "req \<in> set (pedidos (snd (submit api c)))" and "metodo req = POST"
  shows "corpo req = Some \<lparr>nome = trim (inputNome c), preco = parseFloat_str (inputPreco c),
                           descricao = (if trim (inputDescricao c) = [] then None
                                        else Some (trim (inputDescricao c)))\<rparr>"
  using assms
  by (auto simp add: submit_def Let_def split_def pedidos_append pedidos_cadastrarProduto
      pedido_lista_def split: if_splits sum.splits)

subsection \<open>The server behind the client\<close>

lemma stripPrefix_append: "stripPrefix p (p @ r) = Some r"
  by (induction p) simp_all

lemma servidor_delete_null:
  "servidor_api [bolo]
     \<lparr>metodo = DELETE, url = API_BASE_URL @ str ''/produtos/'' @ interpola None, corpo = None\<rparr>
   = (Respondeu False (Some (texto ID_deve_ser_um_numero_valido)) None, [bolo])"
proof -
  have a: "stripPrefix (API_BASE_URL @ str ''/produtos/'')
             (API_BASE_URL @ str ''/produtos/'' @ interpola None) = Some (str ''null'')"
    using stripPrefix_append [of "API_BASE_URL @ str ''/produtos/''" "interpola None"]
    by (simp add: interpola_def)
  show ?thesis
    by (simp add: servidor_api_def a delete_api_produtos_id_def stringToNumber_null envelope_def
        falha_def Let_def)
qed

lemma servidor_post_bolo:
  "servidor_api []
     \<lparr>metodo = POST, url = API_BASE_URL @ str ''/produtos'',
      corpo = Some \<lparr>nome = str ''Bolo'', preco = Fin 12, descricao = None\<rparr>\<rparr>
   = (Respondeu True (Some (texto Produto_cadastrado_com_sucesso)) None,
      [\<lparr>nome = str ''Bolo'', preco = Fin 12, descricao = None, ident = 1, created_at = 0\<rparr>])"
  by (simp add: servidor_api_def json_body_def post_api_produtos_def isNaN_def lessEqZero_def
      Let_def str_bolo_not_empty trim_bolo store_de_def primeiro_def envelope_def)

lemma submit_bolo:
  "pedidos (snd (submit servidor_api (pagina [] (str ''Bolo'') (str ''12'') [])))
   = [\<lparr>metodo = POST, url = API_BASE_URL @ str ''/produtos'',
       corpo = Some \<lparr>nome = str ''Bolo'', preco = Fin 12, descricao = None\<rparr>\<rparr>,
      pedido_lista]"
  by (simp add: submit_def Let_def split_def pagina_def trim_bolo str_bolo_not_empty
      parseFloat_12 trim_empty pedidos_append pedidos_cadastrarProduto servidor_post_bolo
      verifica_def)

subsection \<open>A successful mutation is followed by a refresh of the whole list\<close>

lemma cadastrarProduto_success_refetches:
  assumes "api (servidor c)
             \<lparr>metodo = POST, url = API_BASE_URL @ str ''/produtos'', corpo = Some d\<rparr>
             = (Respondeu True m dat, s)"
  shows "pedidos (snd (cadastrarProduto api d c))
           = [\<lparr>metodo = POST, url = API_BASE_URL @ str ''/produtos'', corpo = Some d\<rparr>,
              pedido_lista]"
    and "\<And>ps m' s'. api s pedido_lista = (Respondeu True m' (Some ps), s')
           \<Longrightarrow> produtos (fst (cadastrarProduto api d c)) = ps"
  using assms
  by (simp_all add: pedidos_cadastrarProduto verifica_def cadastrarProduto_def Let_def fetch_def
      split_def produtos_buscarProdutos pedidos_buscarProdutos pedidos_append)

lemma excluirProduto_success_refetches:
  assumes "api (servidor c)
             \<lparr>metodo = DELETE, url = API_BASE_URL @ str ''/produtos/'' @ interpola i,
              corpo = None\<rparr>
             = (Respondeu True m dat, s)"
  shows "pedidos (snd (excluirProduto api i c))
           = [\<lparr>metodo = DELETE, url = API_BASE_URL @ str ''/produtos/'' @ interpola i,
               corpo = None\<rparr>,
              pedido_lista]"
    and "\<And>ps m' s'. api s pedido_lista = (Respondeu True m' (Some ps), s')
           \<Longrightarrow> produtos (fst (excluirProduto api i c)) = ps"
  using assms
  by (simp_all add: pedidos_excluirProduto verifica_def excluirProduto_def Let_def fetch_def
      split_def produtos_buscarProdutos pedidos_buscarProdutos pedidos_append)

text \<open>
  Called with the id 7 itself, \<open>excluirProduto\<close> deletes the row and shows the refreshed
  list.
\<close>

lemma excluirProduto_7:
  "excluirProduto servidor_api (Some 7) (pagina [bolo, pao] [] [] [])
   = (\<lparr>produtos = [pao], produtoParaExcluir = None, inputNome = [], inputPreco = [],
       inputDescricao = [], servidor = [pao]\<rparr>,
      [Fetch \<lparr>metodo = DELETE, url = str ''http://localhost:3000/api/produtos/7'',
              corpo = None\<rparr>,
       Notificacao Aviso_produto_excluido_com_sucesso Sucesso,
       Mostrar_loading,
       Fetch pedido_lista,
       Renderizar [pao]])"
proof -
  have a: "stripPrefix (API_BASE_URL @ str ''/produtos/'')
             (API_BASE_URL @ str ''/produtos/'' @ interpola (Some 7)) = Some (str ''7'')"
    using stripPrefix_append [of "API_BASE_URL @ str ''/produtos/''" "interpola (Some 7)"]
    by (simp add: interpola_def digitos.simps str_def)
  have b: "servidor_api [bolo, pao]
             \<lparr>metodo = DELETE, url = API_BASE_URL @ str ''/produtos/'' @ interpola (Some 7),
              corpo = None\<rparr>
           = (Respondeu True (Some (texto Produto_excluido_com_sucesso)) None, [pao])"
    by (simp add: servidor_api_def a delete_api_produtos_id_def stringToNumber_7 parseInt_7
        envelope_def Let_def store_de_def bolo_def pao_def primeiro_def)
  have c: "servidor_api [pao] pedido_lista = (Respondeu True None (Some [pao]), [pao])"
    by (simp add: servidor_api_def pedido_lista_def get_api_produtos_def store_de_def
        envelope_def select_order_created_at_desc_def)
  show ?thesis
    by (simp add: excluirProduto_def buscarProdutos_def fetch_def Let_def pagina_def b
        c [unfolded pedido_lista_def] verifica_def renderizarProdutos_def pedido_lista_def
        url_7 [symmetric])
qed

text \<open>
  Whatever the server and whatever the pending id, the request of a confirmed deletion
  carries the text \<open>null\<close>.
\<close>

lemma executarExclusao_requests_null:
  assumes "produtoParaExcluir c = Some i" and "i \<noteq> 0"
  shows "\<exists>rest. pedidos (snd (executarExclusao api c))
           = \<lparr>metodo = DELETE, url = str ''http://localhost:3000/api/produtos/null'',
              corpo = None\<rparr> # rest"
  using assms
  by (simp add: executarExclusao_def cancelarExclusao_def pedidos_excluirProduto url_null
      split_def pedidos_append Let_def)

section \<open>The claims\<close>

subsection \<open>C1: creation with an empty name or a non-positive price\<close>

text \<open>
  Claim C1 says that a create request whose name is empty, also when it is empty only
  after trimming, or whose price is at most zero, gets a 400 answer with no call to the
  store, so that no record with an empty name or a non-positive price is created. The
  handler tests \<open>!nome\<close> before it trims: for the body \<open>{nome: "   ", preco: 5}\<close> the
  test passes, the store is asked to insert a record whose name is the empty string,
  and the answer is 201.
\<close>

theorem create_whitespace_name_reaches_store:
  "post_api_produtos (store_de [])
     \<lparr>nome = JStr (str ''   ''), preco = JNum (Fin 5), descricao = JUndefined\<rparr>
   = (\<lparr>status = 201, success = True, message = Some Produto_cadastrado_com_sucesso,
       error = None,
       data = Some (Item \<lparr>nome = [], preco = Fin 5, descricao = None, ident = 1,
                          created_at = 0\<rparr>),
       total = None\<rparr>,
      [Insert_select \<lparr>nome = [], preco = Fin 5, descricao = None\<rparr>])"
  by (simp add: post_api_produtos_def isNaN_def lessEqZero_def primeiro_def store_de_def
      str_def trim_def trimStart_def isWhiteSpace_def)

theorem create_whitespace_name_reaches_store_witness:
  "status (fst (post_api_produtos (store_de [])
     \<lparr>nome = JStr (str ''   ''), preco = JNum (Fin 5), descricao = JUndefined\<rparr>)) = 201
   \<and> snd (post_api_produtos (store_de [])
     \<lparr>nome = JStr (str ''   ''), preco = JNum (Fin 5), descricao = JUndefined\<rparr>)
     = [Insert_select \<lparr>nome = [], preco = Fin 5, descricao = None\<rparr>]"
  using create_whitespace_name_reaches_store by simp

text \<open>
  The price is validated as \<open>Number(preco)\<close> and stored as \<open>parseFloat(preco)\<close>, which
  differ on a hexadecimal string: \<open>"0x10"\<close> is 16 for the validation and 0 in the record.
\<close>

lemma create_hex_price_stored_as_zero:
  "snd (post_api_produtos store
     \<lparr>nome = JStr (str ''Bolo''), preco = JStr (str ''0x10''), descricao = JUndefined\<rparr>)
   = [Insert_select \<lparr>nome = str ''Bolo'', preco = Fin 0, descricao = None\<rparr>]"
  by (simp add: post_api_produtos_def isNaN_def lessEqZero_def js_eval
      split: resultado.splits option.splits)

subsection \<open>C2: deletion, validation and delegation\<close>




subsection \<open>C3: the list\<close>

text \<open>
  Claim C3: a successful list request returns all stored records, newest first, with a
  \<open>total\<close> equal to their number; on a store error the answer is 400 with the store's
  message. The handler sends the one query \<open>select * order by created_at desc\<close> and
  passes the rows on unchanged: when the store answers that query with the rows of its
  table as ordered, the response holds exactly the rows of the table, in descending
  order of \<open>created_at\<close>, and their count; every successful response holds the rows
  the store returned and their count; a store error gives 400 with its message.
\<close>

theorem list_returns_all_records_newest_first:
  "(store Select_order_created_at_desc
      = Resolved (Some (select_order_created_at_desc tabela)) None \<longrightarrow>
      (\<exists>rows. get_api_produtos store
                 = (\<lparr>status = 200, success = True, message = None, error = None,
                     data = Some (Lista rows), total = Some (length rows)\<rparr>,
                    [Select_order_created_at_desc])
         \<and> mset rows = mset tabela
         \<and> sorted_wrt (\<lambda>a b. created_at b \<le> created_at a) rows))
   \<and> (success (fst (get_api_produtos store)) \<longrightarrow>
        (\<exists>rows. store Select_order_created_at_desc = Resolved (Some rows) None
           \<and> data (fst (get_api_produtos store)) = Some (Lista rows)
           \<and> total (fst (get_api_produtos store)) = Some (length rows)))
   \<and> (\<forall>dat m. store Select_order_created_at_desc = Resolved dat (Some m) \<longrightarrow>
        get_api_produtos store
          = (falha 400 Erro_ao_buscar_produtos (Some (Do_store m)),
             [Select_order_created_at_desc]))"
  by (auto simp add: get_api_produtos_def Let_def falha_def erro_interno_def select_sorted
      select_mset split: resultado.splits option.splits)

theorem list_returns_all_records_newest_first_witness:
  "store_de [bolo, pao] Select_order_created_at_desc
     = Resolved (Some (select_order_created_at_desc [bolo, pao])) None
   \<and> get_api_produtos (store_de [bolo, pao])
     = (\<lparr>status = 200, success = True, message = None, error = None,
         data = Some (Lista [pao, bolo]), total = Some 2\<rparr>, [Select_order_created_at_desc])
   \<and> success (fst (get_api_produtos (store_de [bolo, pao])))
   \<and> store_com_erro (str ''timeout'') Select_order_created_at_desc
     = Resolved None (Some (str ''timeout''))
   \<and> get_api_produtos (store_com_erro (str ''timeout''))
     = (falha 400 Erro_ao_buscar_produtos (Some (Do_store (str ''timeout''))),
        [Select_order_created_at_desc])"
proof -
  have a: "store_de [bolo, pao] Select_order_created_at_desc
             = Resolved (Some (select_order_created_at_desc [bolo, pao])) None"
    by (simp add: store_de_def)
  have b: "store_com_erro (str ''timeout'') Select_order_created_at_desc
             = Resolved None (Some (str ''timeout''))"
    by (simp add: store_com_erro_def)
  show ?thesis
    using list_returns_all_records_newest_first [of "store_de [bolo, pao]" "[bolo, pao]"]
          list_returns_all_records_newest_first [of "store_com_erro (str ''timeout'')" "[]"]
          a b
    by (auto simp add: select_bolo_pao)
qed

subsection \<open>C4: deleting an id that matches no row\<close>

text \<open>
  Claim C4: when the store matches zero rows for the delete it was sent, the answer is
  the not-found envelope with status 404, never one with status 500.
\<close>

theorem delete_zero_rows_is_not_found:
  assumes "snd (delete_api_produtos_id store id') = [q]"
      and "store q = Resolved (Some []) None"
  shows "fst (delete_api_produtos_id store id') = falha 404 Produto_nao_encontrado None
         \<and> status (fst (delete_api_produtos_id store id')) = 404
         \<and> status (fst (delete_api_produtos_id store id')) \<noteq> 500"
  using assms
  by (auto simp add: delete_api_produtos_id_def Let_def falha_def split: if_splits)

theorem delete_zero_rows_is_not_found_witness:
  "snd (delete_api_produtos_id (store_de [pao]) (str ''7'')) = [Delete_eq_id_select (Fin 7)]
   \<and> store_de [pao] (Delete_eq_id_select (Fin 7)) = Resolved (Some []) None
   \<and> fst (delete_api_produtos_id (store_de [pao]) (str ''7''))
       = falha 404 Produto_nao_encontrado None"
proof -
  have a: "snd (delete_api_produtos_id (store_de [pao]) (str ''7''))
             = [Delete_eq_id_select (Fin 7)]"
    by (simp add: delete_calls stringToNumber_7 parseInt_7)
  have b: "store_de [pao] (Delete_eq_id_select (Fin 7)) = Resolved (Some []) None"
    by (simp add: store_de_def pao_def)
  show ?thesis using delete_zero_rows_is_not_found [OF a b] a b by simp
qed

subsection \<open>C5: creating a record from a name and the price string 5.50\<close>

text \<open>
  Claim C5: for the body whose \<open>nome\<close> is the three letters P, a with a tilde (code unit
  \<open>0xE3\<close>), o, and whose \<open>preco\<close> is the string \<open>5.50\<close>, the record given to the store has
  the number 5.5 as its price (the name unchanged, the description null), and when the
  store answers with the record it created the response is 201 with that record.
\<close>

theorem create_pao_coerces_price_and_echoes_record:
  "snd (post_api_produtos store
          \<lparr>nome = JStr [0x50, 0xE3, 0x6F], preco = JStr (str ''5.50''), descricao = JUndefined\<rparr>)
     = [Insert_select \<lparr>nome = [0x50, 0xE3, 0x6F], preco = Fin (11 / 2), descricao = None\<rparr>]
   \<and> (\<forall>r rs. store (Insert_select \<lparr>nome = [0x50, 0xE3, 0x6F], preco = Fin (11 / 2),
                                     descricao = None\<rparr>)
               = Resolved (Some (r # rs)) None \<longrightarrow>
        fst (post_api_produtos store
               \<lparr>nome = JStr [0x50, 0xE3, 0x6F], preco = JStr (str ''5.50''),
                descricao = JUndefined\<rparr>)
          = \<lparr>status = 201, success = True, message = Some Produto_cadastrado_com_sucesso,
             error = None, data = Some (Item r), total = None\<rparr>)"
  by (simp add: post_api_produtos_def isNaN_def lessEqZero_def stringToNumber_550
      parseFloat_550 trim_pao str_550_not_empty Let_def primeiro_def)

theorem create_pao_coerces_price_and_echoes_record_witness:
  "store_de [bolo] (Insert_select \<lparr>nome = [0x50, 0xE3, 0x6F], preco = Fin (11 / 2),
                                   descricao = None\<rparr>)
     = Resolved (Some [\<lparr>nome = [0x50, 0xE3, 0x6F], preco = Fin (11 / 2), descricao = None,
                       ident = 2, created_at = 1\<rparr>]) None
   \<and> post_api_produtos (store_de [bolo])
        \<lparr>nome = JStr [0x50, 0xE3, 0x6F], preco = JStr (str ''5.50''), descricao = JUndefined\<rparr>
     = (\<lparr>status = 201, success = True, message = Some Produto_cadastrado_com_sucesso,
         error = None,
         data = Some (Item \<lparr>nome = [0x50, 0xE3, 0x6F], preco = Fin (11 / 2), descricao = None,
                            ident = 2, created_at = 1\<rparr>),
         total = None\<rparr>,
        [Insert_select \<lparr>nome = [0x50, 0xE3, 0x6F], preco = Fin (11 / 2), descricao = None\<rparr>])"
proof -
  have a: "store_de [bolo] (Insert_select \<lparr>nome = [0x50, 0xE3, 0x6F], preco = Fin (11 / 2),
                                           descricao = None\<rparr>)
     = Resolved (Some [\<lparr>nome = [0x50, 0xE3, 0x6F], preco = Fin (11 / 2), descricao = None,
                       ident = 2, created_at = 1\<rparr>]) None"
    by (simp add: store_de_def)
  show ?thesis
    using create_pao_coerces_price_and_echoes_record [of "store_de [bolo]"] a
    by (simp add: prod_eq_iff)
qed

subsection \<open>C6: the form rejects an empty name and a price that is not positive\<close>

text \<open>
  Claim C6: when the name field is empty after trimming, or the price field does not
  parse to a positive number (\<open>parseFloat\<close> gives NaN, minus infinity, or a number at most
  zero), submitting the form shows a validation notification, moves the focus to the
  field, issues no request, and leaves the page and the server as they were.
\<close>

theorem submit_invalid_form_notifies_without_request:
  assumes "trim (inputNome c) = []
           \<or> parseFloat_str (inputPreco c) = NaN
           \<or> parseFloat_str (inputPreco c) = NInf
           \<or> (\<exists>q. parseFloat_str (inputPreco c) = Fin q \<and> q \<le> 0)"
  shows "(snd (submit api c)
            = [Notificacao Aviso_nome_do_produto_e_obrigatorio Erro, Focus Campo_nome]
          \<or> snd (submit api c)
            = [Notificacao Aviso_preco_deve_ser_maior_que_zero Erro, Focus Campo_preco])
         \<and> pedidos (snd (submit api c)) = []
         \<and> fst (submit api c) = c"
  using assms by (auto simp add: submit_def Let_def)

theorem submit_invalid_form_notifies_without_request_witness:
  "parseFloat_str (str ''abc'') = NaN
   \<and> submit servidor_api (pagina [bolo] (str ''Bolo'') (str ''abc'') [])
       = (pagina [bolo] (str ''Bolo'') (str ''abc'') [],
          [Notificacao Aviso_preco_deve_ser_maior_que_zero Erro, Focus Campo_preco])
   \<and> trim (str ''   '') = []
   \<and> submit servidor_api (pagina [bolo] (str ''   '') (str ''12'') [])
       = (pagina [bolo] (str ''   '') (str ''12'') [],
          [Notificacao Aviso_nome_do_produto_e_obrigatorio Erro, Focus Campo_nome])"
proof -
  have a: "inputPreco (pagina [bolo] (str ''Bolo'') (str ''abc'') []) = str ''abc''"
          "inputNome (pagina [bolo] (str ''Bolo'') (str ''abc'') []) = str ''Bolo''"
          "inputPreco (pagina [bolo] (str ''   '') (str ''12'') []) = str ''12''"
          "inputNome (pagina [bolo] (str ''   '') (str ''12'') []) = str ''   ''"
    by (simp_all add: pagina_def)
  have b: "snd (submit servidor_api (pagina [bolo] (str ''Bolo'') (str ''abc'') []))
             \<noteq> [Notificacao Aviso_nome_do_produto_e_obrigatorio Erro, Focus Campo_nome]"
    by (simp add: submit_def Let_def a trim_bolo str_bolo_not_empty parseFloat_abc)
  have c: "snd (submit servidor_api (pagina [bolo] (str ''   '') (str ''12'') []))
             \<noteq> [Notificacao Aviso_preco_deve_ser_maior_que_zero Erro, Focus Campo_preco]"
    by (simp add: submit_def Let_def a trim_spaces)
  show ?thesis
    using submit_invalid_form_notifies_without_request
            [of "pagina [bolo] (str ''Bolo'') (str ''abc'') []" servidor_api]
          submit_invalid_form_notifies_without_request
            [of "pagina [bolo] (str ''   '') (str ''12'') []" servidor_api]
          b c
    by (simp add: a parseFloat_abc trim_spaces prod_eq_iff)
qed

subsection \<open>C7: a confirmed deletion\<close>

text \<open>
  Claim C7 says that the client fetches the whole list again after every successful
  mutation, and that confirming the deletion of the product with id 7 sends
  \<open>DELETE /api/produtos/7\<close> and then refreshes the list. \<open>executarExclusao\<close> calls
  \<open>cancelarExclusao\<close>, which sets \<open>produtoParaExcluir\<close> to null, before it reads that
  variable for the call of \<open>excluirProduto\<close>: the request goes to \<open>/api/produtos/null\<close>,
  the server answers 400, the client shows the error, the row stays and the list is not
  fetched again.
\<close>

theorem confirmed_deletion_requests_null_id:
  "executarExclusao servidor_api
     (fst (confirmarExclusao 7 (str ''Bolo'') (pagina [bolo] [] [] [])))
   = (pagina [bolo] [] [] [],
      [Fechar_modal,
       Fetch \<lparr>metodo = DELETE, url = str ''http://localhost:3000/api/produtos/null'',
              corpo = None\<rparr>,
       Notificacao (Aviso_erro_ao_excluir_produto (texto ID_deve_ser_um_numero_valido)) Erro])"
  by (simp add: executarExclusao_def confirmarExclusao_def cancelarExclusao_def pagina_def
      excluirProduto_def fetch_def url_null servidor_delete_null [unfolded url_null]
      verifica_def ou_padrao_def Let_def texto_not_empty)

theorem confirmed_deletion_requests_null_id_witness:
  "pedidos (snd (executarExclusao servidor_api
     (fst (confirmarExclusao 7 (str ''Bolo'') (pagina [bolo] [] [] [])))))
   = [\<lparr>metodo = DELETE, url = str ''http://localhost:3000/api/produtos/null'', corpo = None\<rparr>]
   \<and> servidor (fst (executarExclusao servidor_api
        (fst (confirmarExclusao 7 (str ''Bolo'') (pagina [bolo] [] [] []))))) = [bolo]"
  using confirmed_deletion_requests_null_id by (simp add: pagina_def)

subsection \<open>C8: an id with a fractional part\<close>




subsection \<open>C9: a falsy price\<close>

text \<open>
  Claim C9: when the price of a create request is falsy (the number 0 or the empty
  string, and likewise null, false, NaN or a missing field), the check of the required
  fields answers first: the response is 400 with the message that name and price are
  required, not the message about a price that must be greater than zero, and the
  store is not called.
\<close>

theorem create_falsy_price_reports_missing_fields:
  assumes "\<not> truthy (preco body)"
  shows "post_api_produtos store body = (falha 400 Nome_e_preco_sao_obrigatorios None, [])
         \<and> message (fst (post_api_produtos store body))
             \<noteq> Some Preco_deve_ser_um_numero_maior_que_zero"
  using assms by (simp add: post_api_produtos_def falha_def)

theorem create_falsy_price_reports_missing_fields_witness:
  "\<not> truthy (JNum (Fin 0)) \<and> \<not> truthy (JStr [])
   \<and> post_api_produtos (store_de [])
        \<lparr>nome = JStr (str ''Bolo''), preco = JNum (Fin 0), descricao = JUndefined\<rparr>
      = (falha 400 Nome_e_preco_sao_obrigatorios None, [])
   \<and> post_api_produtos (store_de [])
        \<lparr>nome = JStr (str ''Bolo''), preco = JStr [], descricao = JUndefined\<rparr>
      = (falha 400 Nome_e_preco_sao_obrigatorios None, [])"
  using create_falsy_price_reports_missing_fields
          [of "\<lparr>nome = JStr (str ''Bolo''), preco = JNum (Fin 0), descricao = JUndefined\<rparr>"
              "store_de []"]
        create_falsy_price_reports_missing_fields
          [of "\<lparr>nome = JStr (str ''Bolo''), preco = JStr [], descricao = JUndefined\<rparr>"
              "store_de []"]
  by simp

subsection \<open>C10: the description sent to the store\<close>

text \<open>
  Claim C10: whenever the create handler sends a record to the store, its description
  is null if the description of the request is absent or falsy, and the trimmed
  description otherwise; and every POST of the form's submit listener carries null for
  a description field that is empty (or blank), and the trimmed text otherwise.
\<close>

theorem description_null_when_falsy_else_trimmed:
  "(snd (post_api_produtos store body) = [Insert_select r] \<longrightarrow>
      (\<not> truthy (descricao body) \<longrightarrow> descricao r = None)
      \<and> (truthy (descricao body) \<longrightarrow>
           (\<exists>s. descricao body = JStr s \<and> descricao r = Some (trim s))))
   \<and> (\<forall>req \<in> set (pedidos (snd (submit api c))). metodo req = POST \<longrightarrow>
        (\<exists>d. corpo req = Some d
           \<and> descricao d = (if trim (inputDescricao c) = [] then None
                            else Some (trim (inputDescricao c)))))"
  using post_sent_record [of store body r] submit_posts [of _ api c] by auto

theorem description_null_when_falsy_else_trimmed_witness:
  "snd (post_api_produtos (store_de [])
          \<lparr>nome = JStr (str ''Bolo''), preco = JNum (Fin 12),
           descricao = JStr (str ''  fresco '')\<rparr>)
     = [Insert_select \<lparr>nome = str ''Bolo'', preco = Fin 12, descricao = Some (str ''fresco'')\<rparr>]
   \<and> truthy (JStr (str ''  fresco ''))
   \<and> trim (str ''  fresco '') = str ''fresco''
   \<and> snd (post_api_produtos (store_de [])
          \<lparr>nome = JStr (str ''Bolo''), preco = JNum (Fin 12), descricao = JUndefined\<rparr>)
     = [Insert_select \<lparr>nome = str ''Bolo'', preco = Fin 12, descricao = None\<rparr>]
   \<and> \<not> truthy JUndefined
   \<and> pedidos (snd (submit servidor_api (pagina [] (str ''Bolo'') (str ''12'') [])))
     = [\<lparr>metodo = POST, url = API_BASE_URL @ str ''/produtos'',
         corpo = Some \<lparr>nome = str ''Bolo'', preco = Fin 12, descricao = None\<rparr>\<rparr>,
        pedido_lista]
   \<and> inputDescricao (pagina [] (str ''Bolo'') (str ''12'') []) = []"
  using description_null_when_falsy_else_trimmed
          [of "store_de []"
              "\<lparr>nome = JStr (str ''Bolo''), preco = JNum (Fin 12),
                descricao = JStr (str ''  fresco '')\<rparr>"
              "\<lparr>nome = str ''Bolo'', preco = Fin 12, descricao = Some (str ''fresco'')\<rparr>"
              servidor_api "pagina [] (str ''Bolo'') (str ''12'') []"]
        description_null_when_falsy_else_trimmed
          [of "store_de []"
              "\<lparr>nome = JStr (str ''Bolo''), preco = JNum (Fin 12), descricao = JUndefined\<rparr>"
              "\<lparr>nome = str ''Bolo'', preco = Fin 12, descricao = None\<rparr>"
              servidor_api "pagina [] (str ''Bolo'') (str ''12'') []"]
        post_calls_fresco post_calls_absent submit_bolo
  by (simp add: str_fresco_not_empty trim_fresco pagina_def)

end
